theory Spec2Isabelle
  imports Main
begin

section \<open>JavaScript values\<close>

text \<open>
  The dispatcher of \<^verbatim>\<open>src/defaultModules/CommandHandler.ts\<close> handles values of type
  \<^verbatim>\<open>any\<close>: what a converter returns, what a check returns, what a handler throws. The
  model keeps the primitive values whose truthiness the code tests, the objects the
  dispatchers create or pass on (the message event, the \<^verbatim>\<open>Context\<close> built from it, the
  interaction event), and every other object as an opaque label.

  A number is an integer or NaN: fractions and infinities are truthy like any non-zero
  integer, and no code path modelled here computes with them.
\<close>

type_synonym permissions = "string list"

text \<open>
  A message event as far as \<^verbatim>\<open>onMessage\<close> reads it, and its id.
  \<open>guild_me_permissions\<close> is \<^verbatim>\<open>msg.guild?.me?.permissionsIn(msg.channel.id).has\<close>:
  \<open>None\<close> when the optional chain stops at a missing guild or member, otherwise the
  platform's capability test. \<open>member_permissions\<close> is the same for \<^verbatim>\<open>msg.member\<close>.
\<close>

record Message =
  msg_id :: string
  author_id :: string
  author_bot :: bool
  content :: string
  guild_me_permissions :: "(permissions \<Rightarrow> bool) option"
  member_permissions :: "(permissions \<Rightarrow> bool) option"

text \<open>
  An interaction event as far as \<^verbatim>\<open>interaction\<close> reads it. \<open>command_name\<close> is the name of
  \<^verbatim>\<open>i.command\<close>, \<open>None\<close> when \<^verbatim>\<open>i.command\<close> is \<^verbatim>\<open>null\<close>. The two permission fields are
  \<^verbatim>\<open>i.guild?.me?.permissionsIn(i.channel!.id).has\<close> and the same for \<^verbatim>\<open>i.member\<close> (an
  interaction in a guild has its channel). \<open>options\<close> is the label of \<^verbatim>\<open>i.options\<close>.
\<close>

record Interaction =
  guildId :: "string option"
  isCommand :: bool
  command_name :: "string option"
  i_guild_me_permissions :: "(permissions \<Rightarrow> bool) option"
  i_member_permissions :: "(permissions \<Rightarrow> bool) option"
  user_id :: string
  options :: string

datatype jsnumber = Num int | NaN

datatype jsval =
    JUndefined
  | JNull
  | JBool bool
  | JNumber jsnumber
  | JString string
  | JMessage Message
  | JContext Message string
  | JInteraction Interaction
  | JObject string

text \<open>ECMAScript ToBoolean, as \<^verbatim>\<open>!x\<close> and \<^verbatim>\<open>x || y\<close> apply it.\<close>

fun truthy :: "jsval \<Rightarrow> bool" where
  "truthy JUndefined = False"
| "truthy JNull = False"
| "truthy (JBool b) = b"
| "truthy (JNumber NaN) = False"
| "truthy (JNumber (Num n)) = (n \<noteq> 0)"
| "truthy (JString s) = (s \<noteq> [])"
| "truthy (JMessage m) = True"
| "truthy (JContext m p) = True"
| "truthy (JInteraction i) = True"
| "truthy (JObject l) = True"

text \<open>
  What awaiting a call gives: a value, or an exception (a synchronous throw and a rejected
  promise are the same thing to \<^verbatim>\<open>try { await f() } catch\<close>).
\<close>

datatype 'a outcome = Returns 'a | Raises jsval

text \<open>
  What calling a handler gives when it is \<^emph>\<open>not\<close> awaited: it returns (also a promise
  that is fulfilled later), it throws synchronously, or it returns a promise that is
  rejected later. \<^verbatim>\<open>try { f() } catch\<close> sees only the second; \<^verbatim>\<open>try { await f() } catch\<close>
  sees the second and the third.
\<close>

datatype handler_outcome = Completes | Throws jsval | Rejects jsval

section \<open>Strings and arrays\<close>

definition lower_char :: "char \<Rightarrow> char" where
  "lower_char c =
     (case map_of (zip ''ABCDEFGHIJKLMNOPQRSTUVWXYZ'' ''abcdefghijklmnopqrstuvwxyz'') c of
        Some l \<Rightarrow> l
      | None \<Rightarrow> c)"

text \<open>\<^verbatim>\<open>s.toLowerCase()\<close> on the ASCII letters (a \<open>char\<close> is a byte).\<close>

definition toLowerCase :: "string \<Rightarrow> string" where
  "toLowerCase s = map lower_char s"

text \<open>\<^verbatim>\<open>s.startsWith(p)\<close>.\<close>

definition startsWith :: "string \<Rightarrow> string \<Rightarrow> bool" where
  "startsWith s p = (take (length p) s = p)"

text \<open>\<^verbatim>\<open>s.split(sep)\<close> for a separator of one character: never the empty array.\<close>

fun split_on :: "char \<Rightarrow> string \<Rightarrow> string list" where
  "split_on sep [] = [[]]"
| "split_on sep (c # cs) =
     (if c = sep then [] # split_on sep cs
      else (case split_on sep cs of
              [] \<Rightarrow> [[c]]
            | p # ps \<Rightarrow> (c # p) # ps))"

text \<open>\<^verbatim>\<open>xs.shift()\<close>: the first element (\<^verbatim>\<open>undefined\<close> on the empty array) and what is left.\<close>

definition shift :: "'a list \<Rightarrow> 'a option \<times> 'a list" where
  "shift xs = (case xs of [] \<Rightarrow> (None, []) | x # r \<Rightarrow> (Some x, r))"

text \<open>
  \<^verbatim>\<open>xs.join(' ')\<close> on an array of strings in which an element may be \<^verbatim>\<open>undefined\<close>:
  \<^verbatim>\<open>join\<close> writes \<^verbatim>\<open>undefined\<close> as the empty string.
\<close>

fun join_space :: "string option list \<Rightarrow> string" where
  "join_space [] = []"
| "join_space [x] = (case x of None \<Rightarrow> [] | Some s \<Rightarrow> s)"
| "join_space (x # y # r) = (case x of None \<Rightarrow> [] | Some s \<Rightarrow> s) @ '' '' @ join_space (y # r)"

text \<open>\<^verbatim>\<open>!v\<close> for \<^verbatim>\<open>v: string | undefined\<close>: true on \<^verbatim>\<open>undefined\<close> and on the empty string.\<close>

definition falsy_token :: "string option \<Rightarrow> bool" where
  "falsy_token v = (case v of None \<Rightarrow> True | Some s \<Rightarrow> s = [])"

section \<open>The registry's entries and the client\<close>

text \<open>The constructors that tag parameter types and converters (\<^verbatim>\<open>String\<close>, \<^verbatim>\<open>Number\<close>, ...).\<close>

datatype type_tag = TString | TNumber | TMessage | TUser | TGuildMember | TCustom string

text \<open>One entry of \<^verbatim>\<open>cmd.args\<close>.\<close>

record Argument =
  arg_type :: type_tag
  optional :: bool
  rest :: bool

text \<open>
  One entry of \<^verbatim>\<open>argConverterList\<close>. \<open>convert\<close> is a JavaScript function applied to an
  argument array of two values, so its two positions have the same type here.
\<close>

record ArgumentConverter =
  conv_type :: type_tag
  convert :: "jsval \<Rightarrow> jsval \<Rightarrow> jsval outcome"

record Command =
  name :: string
  aliases :: "string list"
  ownerOnly :: bool
  clientPermissions :: permissions
  checks :: "(Message \<Rightarrow> jsval outcome) list"
  args :: "Argument list"
  usesCtx :: bool
  execute :: "jsval list \<Rightarrow> handler_outcome"

record SlashCommand =
  slash_name :: string
  slash_clientPermissions :: permissions
  slash_ownerOnly :: bool
  slash_execute :: "jsval list \<Rightarrow> handler_outcome"

datatype prefix_option = PrefixString string | PrefixFunction "Message \<Rightarrow> string outcome"

text \<open>\<^verbatim>\<open>commandOptions.slashCommands.guild\<close>, read as \<^verbatim>\<open>any\<close>: not set, one guild id, or several.\<close>

datatype guild_option = GuildUndefined | GuildString string | GuildArray "string list"

record Client =
  allowSelf :: bool
  allowBots :: bool
  prefix_opt :: prefix_option
  client_user_id :: string
  owners :: "string list"
  commandList :: "Command list"
  argConverterList :: "ArgumentConverter list"
  slashGuild :: guild_option
  slashCommandList :: "SlashCommand list"

section \<open>What a dispatch does\<close>

text \<open>
  The second argument of \<^verbatim>\<open>this.client.emit(channel, error, event, command)\<close>: one of the
  error classes of \<^verbatim>\<open>../error\<close>, a plain \<^verbatim>\<open>new Error(message)\<close>, or a caught value passed
  on as it is.
\<close>

datatype error_value =
    OwnerOnlyCommand
  | MissingClientPermissions permissions
  | MissingUserPermissions permissions
  | CheckFailedError
  | Error string
  | Thrown jsval
  | MissingSlashClientPermissions permissions
  | MissingSlashUserPermissions permissions
  | OwnerOnlySlashCommand

text \<open>
  The observable effects of one dispatch, in order: an emission on an error channel (the
  event and the command passed with it are the dispatch's own and left out), the call of
  a command's handler with its argument array, a handler promise rejected with nobody
  awaiting it, and an exception that leaves the listener itself.
\<close>

datatype effect =
    Emit string error_value
  | Execute string "jsval list"
  | UnhandledRejection jsval
  | ListenerThrows jsval

text \<open>A stage of the listener either ends the dispatch with its effects or hands on.\<close>

datatype 'a stage = Done "effect list" | Next 'a

section \<open>Text dispatch: \<^verbatim>\<open>onMessage\<close>\<close>

text \<open>
  The find predicate of lines 40-44: the name is compared with both sides in lower case;
  the aliases are put in lower case and searched for the invocation token as typed.
\<close>

definition matchesCommand :: "string \<Rightarrow> Command \<Rightarrow> bool" where
  "matchesCommand command x =
     (toLowerCase (name x) = toLowerCase command
      \<or> command \<in> set (map toLowerCase (aliases x)))"

definition resolvePrefix :: "prefix_option \<Rightarrow> Message \<Rightarrow> string outcome" where
  "resolvePrefix prefixFunction msg =
     (case prefixFunction of
        PrefixFunction f \<Rightarrow> f msg
      | PrefixString s \<Rightarrow> Returns s)"

text \<open>Lines 24-45: the filters, the prefix, the tokens and the registry lookup.\<close>

definition resolveCommand :: "Client \<Rightarrow> Message \<Rightarrow> (Command \<times> string list \<times> string) stage" where
  "resolveCommand client msg =
     (if \<not> allowSelf client \<and> author_id msg = client_user_id client then Done []
      else if \<not> allowBots client \<and> author_bot msg then Done []
      else (case resolvePrefix (prefix_opt client) msg of
              Raises e \<Rightarrow> Done [ListenerThrows e]
            | Returns prefix \<Rightarrow>
                if \<not> startsWith (content msg) prefix then Done []
                else (case shift (split_on CHR '' '' (drop (length prefix) (content msg))) of
                        (None, tokens) \<Rightarrow> Done []
                      | (Some command, tokens) \<Rightarrow>
                          if command = [] then Done []
                          else (case find (matchesCommand command) (commandList client) of
                                  None \<Rightarrow> Done []
                                | Some cmd \<Rightarrow> Next (cmd, tokens, prefix)))))"

text \<open>
  \<^verbatim>\<open>x?.permissionsIn(channel).has(required)\<close> as a condition: \<^verbatim>\<open>undefined\<close>, so false, when
  the chain stops early.
\<close>

definition has :: "(permissions \<Rightarrow> bool) option \<Rightarrow> permissions \<Rightarrow> bool" where
  "has p required = (case p of None \<Rightarrow> False | Some f \<Rightarrow> f required)"

text \<open>
  Lines 46-76: owner-only, then the client's permissions, then the member's (tested
  against \<^verbatim>\<open>cmd.clientPermissions\<close> as well). \<open>Some e\<close> is the error emitted.
\<close>

definition gateMessage :: "Client \<Rightarrow> Message \<Rightarrow> Command \<Rightarrow> error_value option" where
  "gateMessage client msg cmd =
     (if ownerOnly cmd \<and> author_id msg \<notin> set (owners client) then Some OwnerOnlyCommand
      else if \<not> has (guild_me_permissions msg) (clientPermissions cmd)
        then Some (MissingClientPermissions (clientPermissions cmd))
      else if \<not> has (member_permissions msg) (clientPermissions cmd)
        then Some (MissingUserPermissions (clientPermissions cmd))
      else None)"

text \<open>Lines 78-92: the checks in order, each awaited inside \<^verbatim>\<open>try\<close>.\<close>

datatype checks_result = ChecksPassed | CheckRefused | CheckThrew

fun runChecks :: "(Message \<Rightarrow> jsval outcome) list \<Rightarrow> Message \<Rightarrow> checks_result" where
  "runChecks [] msg = ChecksPassed"
| "runChecks (check # later) msg =
     (case check msg of
        Raises e \<Rightarrow> CheckThrew
      | Returns r \<Rightarrow> if \<not> truthy r then CheckRefused else runChecks later msg)"

text \<open>
  Lines 96-146, the body of the loop over \<^verbatim>\<open>cmd.args\<close> after \<^verbatim>\<open>args.shift()\<close> has given
  \<open>v\<close> and left \<open>tokens\<close> (the local array \<^verbatim>\<open>args\<close> of the source; \<open>args\<close> is the
  command's field here). It ends in \<^verbatim>\<open>continue\<close> (or falls through to the next
  iteration), in \<^verbatim>\<open>break\<close>, or in \<^verbatim>\<open>return this.client.emit('commandError', e, ...)\<close>.

  \<open>parsedArgs\<close> has one entry per parameter already passed (lemma \<open>loopAt_index\<close>
  below), so that \<^verbatim>\<open>parsedArgs[i] = x\<close> and \<^verbatim>\<open>parsedArgs.push(x)\<close> both append. Past the
  two tests of \<^verbatim>\<open>!v\<close> the token is a non-empty string, so the case \<open>None\<close> after them is
  never reached. \<^verbatim>\<open>arg.type.constructor.name\<close> is the name of the constructor of a
  constructor function, \<^verbatim>\<open>Function\<close>.
\<close>

datatype step = Continue "jsval list" | Break "jsval list" | Return error_value

definition argBody ::
  "ArgumentConverter list \<Rightarrow> Message \<Rightarrow> Argument \<Rightarrow> string option \<Rightarrow> string list \<Rightarrow> jsval list \<Rightarrow> step" where
  "argBody converters msg arg v tokens parsedArgs =
     (if rest arg then Break (parsedArgs @ [JString (join_space (v # map Some tokens))])
      else if \<not> optional arg \<and> falsy_token v
        then Return (Error ''An argument is required but not provided.'')
      else if optional arg \<and> falsy_token v then Break parsedArgs
      else (case v of
              None \<Rightarrow> Break parsedArgs
            | Some token \<Rightarrow>
                if arg_type arg = TString then Continue (parsedArgs @ [JString token])
                else (case find (\<lambda>x. conv_type x = arg_type arg) converters of
                        Some converter \<Rightarrow>
                          (case convert converter (JString token) (JMessage msg) of
                             Returns r \<Rightarrow>
                               if \<not> truthy r
                               then Return (Error ''Argument converter returned no result.'')
                               else Continue (parsedArgs @ [r])
                           | Raises e \<Rightarrow> Return (Thrown e))
                      | None \<Rightarrow> Return (Error ''No converter found for type Function.''))))"

text \<open>Lines 93-147: the loop. \<open>Inl e\<close> is the error emitted, \<open>Inr\<close> the parsed values.\<close>

fun argLoop ::
  "ArgumentConverter list \<Rightarrow> Message \<Rightarrow> Argument list \<Rightarrow> string list \<Rightarrow> jsval list
     \<Rightarrow> error_value + jsval list" where
  "argLoop converters msg [] tokens parsedArgs = Inr parsedArgs"
| "argLoop converters msg (arg # commandArgs) tokens parsedArgs =
     (case argBody converters msg arg (fst (shift tokens)) (snd (shift tokens)) parsedArgs of
        Continue p \<Rightarrow> argLoop converters msg commandArgs (snd (shift tokens)) p
      | Break p \<Rightarrow> Inr p
      | Return e \<Rightarrow> Inl e)"

text \<open>
  The state of the loop at the start of iteration \<open>k\<close> (the parameters not yet passed,
  the tokens not yet consumed, the values parsed so far), when the loop gets there.
\<close>

fun loopAt ::
  "ArgumentConverter list \<Rightarrow> Message \<Rightarrow> Argument list \<Rightarrow> string list \<Rightarrow> jsval list \<Rightarrow> nat
     \<Rightarrow> (Argument list \<times> string list \<times> jsval list) option" where
  "loopAt converters msg commandArgs tokens parsedArgs 0 = Some (commandArgs, tokens, parsedArgs)"
| "loopAt converters msg [] tokens parsedArgs (Suc k) = None"
| "loopAt converters msg (arg # commandArgs) tokens parsedArgs (Suc k) =
     (case argBody converters msg arg (fst (shift tokens)) (snd (shift tokens)) parsedArgs of
        Continue p \<Rightarrow> loopAt converters msg commandArgs (snd (shift tokens)) p k
      | Break p \<Rightarrow> None
      | Return e \<Rightarrow> None)"

text \<open>
  Lines 148-159: the handler is called, not awaited, inside \<^verbatim>\<open>try\<close>; its first argument
  is a \<^verbatim>\<open>Context\<close> or the message.
\<close>

definition executeMessage :: "Command \<Rightarrow> Message \<Rightarrow> string \<Rightarrow> jsval list \<Rightarrow> effect list" where
  "executeMessage cmd msg prefix parsedArgs =
     (let executeArgs = (if usesCtx cmd then JContext msg prefix else JMessage msg) # parsedArgs
      in Execute (name cmd) executeArgs #
           (case execute cmd executeArgs of
              Completes \<Rightarrow> []
            | Throws e \<Rightarrow> [Emit ''commandError'' (Thrown e)]
            | Rejects e \<Rightarrow> [UnhandledRejection e]))"

text \<open>
  Lines 24-92 together: the dispatch ends before the loop over the parameters, or enters
  it with the resolved command, the tokens after the invocation name, and the prefix.
\<close>

definition beforeArgs :: "Client \<Rightarrow> Message \<Rightarrow> (Command \<times> string list \<times> string) stage" where
  "beforeArgs client msg =
     (case resolveCommand client msg of
        Done effects \<Rightarrow> Done effects
      | Next (cmd, tokens, prefix) \<Rightarrow>
          (case gateMessage client msg cmd of
             Some e \<Rightarrow> Done [Emit ''commandError'' e]
           | None \<Rightarrow>
               (case runChecks (checks cmd) msg of
                  CheckThrew \<Rightarrow> Done []
                | CheckRefused \<Rightarrow> Done [Emit ''commandError'' CheckFailedError]
                | ChecksPassed \<Rightarrow> Next (cmd, tokens, prefix))))"

definition onMessage :: "Client \<Rightarrow> Message \<Rightarrow> effect list" where
  "onMessage client msg =
     (case beforeArgs client msg of
        Done effects \<Rightarrow> effects
      | Next (cmd, tokens, prefix) \<Rightarrow>
          (case argLoop (argConverterList client) msg (args cmd) tokens [] of
             Inl e \<Rightarrow> [Emit ''commandError'' e]
           | Inr parsedArgs \<Rightarrow> executeMessage cmd msg prefix parsedArgs))"


section \<open>Interaction dispatch: \<^verbatim>\<open>interaction\<close>\<close>

text \<open>\<^verbatim>\<open>s.includes(x)\<close> on strings: \<open>x\<close> occurs in \<open>s\<close>.\<close>

fun includes_string :: "string \<Rightarrow> string \<Rightarrow> bool" where
  "includes_string [] x = (x = [])"
| "includes_string (c # s) x = (if startsWith (c # s) x then True else includes_string s x)"

text \<open>
  Lines 164-172, the condition under which the listener returns at once. With no guild
  configured, \<^verbatim>\<open>undefined.includes\<close> is a TypeError; with one guild id \<open>g\<close> the condition
  is \<^verbatim>\<open>(g && g !== i.guildId) || !g.includes(i.guildId)\<close>, where \<^verbatim>\<open>includes\<close> reads
  \<^verbatim>\<open>null\<close> as the string \<^verbatim>\<open>null\<close>; an array is truthy and never identical to a guild id.
\<close>

definition guildFilter :: "guild_option \<Rightarrow> string option \<Rightarrow> bool outcome" where
  "guildFilter guild gid =
     (case guild of
        GuildUndefined \<Rightarrow> Raises (JObject ''TypeError'')
      | GuildString g \<Rightarrow>
          Returns (if g \<noteq> [] \<and> Some g \<noteq> gid then True
                   else \<not> includes_string g (case gid of None \<Rightarrow> ''null'' | Some x \<Rightarrow> x))
      | GuildArray gs \<Rightarrow> Returns True)"

text \<open>
  Lines 164-178. \<^verbatim>\<open>cmd.name\<close> is read inside the \<^verbatim>\<open>find\<close> callback, so a \<^verbatim>\<open>null\<close>
  \<^verbatim>\<open>i.command\<close> is a TypeError as soon as the list has an entry to test.
\<close>

definition resolveInteraction :: "Client \<Rightarrow> Interaction \<Rightarrow> SlashCommand stage" where
  "resolveInteraction client i =
     (case guildFilter (slashGuild client) (guildId i) of
        Raises e \<Rightarrow> Done [ListenerThrows e]
      | Returns True \<Rightarrow> Done []
      | Returns False \<Rightarrow>
          if \<not> isCommand i then Done []
          else (case command_name i of
                  None \<Rightarrow>
                    if slashCommandList client = [] then Done []
                    else Done [ListenerThrows (JObject ''TypeError'')]
                | Some n \<Rightarrow>
                    (case find (\<lambda>x. slash_name x = n) (slashCommandList client) of
                       None \<Rightarrow> Done []
                     | Some command \<Rightarrow> Next command)))"

text \<open>
  Lines 180-216: the client's permissions, then the member's (tested against
  \<^verbatim>\<open>command.clientPermissions\<close> as well), then owner-only.
\<close>

definition gateInteraction :: "Client \<Rightarrow> Interaction \<Rightarrow> SlashCommand \<Rightarrow> error_value option" where
  "gateInteraction client i command =
     (if \<not> has (i_guild_me_permissions i) (slash_clientPermissions command)
        then Some (MissingSlashClientPermissions (slash_clientPermissions command))
      else if \<not> has (i_member_permissions i) (slash_clientPermissions command)
        then Some (MissingSlashUserPermissions (slash_clientPermissions command))
      else if slash_ownerOnly command \<and> user_id i \<notin> set (owners client)
        then Some OwnerOnlySlashCommand
      else None)"

text \<open>Lines 218-222: the handler is called and awaited inside \<^verbatim>\<open>try\<close>.\<close>

definition executeInteraction :: "SlashCommand \<Rightarrow> Interaction \<Rightarrow> effect list" where
  "executeInteraction command i =
     (let executeArgs = [JInteraction i, JObject (options i)]
      in Execute (slash_name command) executeArgs #
           (case slash_execute command executeArgs of
              Completes \<Rightarrow> []
            | Throws e \<Rightarrow> [Emit ''slashCommandError'' (Thrown e)]
            | Rejects e \<Rightarrow> [Emit ''slashCommandError'' (Thrown e)]))"

definition interaction :: "Client \<Rightarrow> Interaction \<Rightarrow> effect list" where
  "interaction client i =
     (case resolveInteraction client i of
        Done effects \<Rightarrow> effects
      | Next command \<Rightarrow>
          (case gateInteraction client i command of
             Some e \<Rightarrow> [Emit ''slashCommandError'' e]
           | None \<Rightarrow> executeInteraction command i))"

section \<open>The built-in converters\<close>

text \<open>
  \<^verbatim>\<open>src/builtinModules/BuiltinCommandConverters.ts\<close> declares its converters with the
  message first and the raw value second. \<^verbatim>\<open>message\<close>, \<^verbatim>\<open>string\<close> and \<^verbatim>\<open>number\<close> do not
  look into their arguments themselves, so they are functions of two values here, the
  parameters in the declared order. (\<^verbatim>\<open>user\<close> and \<^verbatim>\<open>member\<close>, declared in the same order,
  read the platform's caches and are not modelled.)

  \<^verbatim>\<open>Number(value)\<close> is ECMAScript's conversion to a number. On an object it goes through
  the object's own \<^verbatim>\<open>valueOf\<close> and \<^verbatim>\<open>toString\<close>, which for a message belong to the
  platform library, so the conversion is a parameter \<open>ToNumber\<close> of the model.
\<close>

definition message :: "jsval \<Rightarrow> jsval \<Rightarrow> jsval outcome" where
  "message msg arg = Returns msg"

definition string :: "jsval \<Rightarrow> jsval \<Rightarrow> jsval outcome" where
  "string msg arg = Returns arg"

definition number :: "(jsval \<Rightarrow> jsnumber) \<Rightarrow> jsval \<Rightarrow> jsval \<Rightarrow> jsval outcome" where
  "number ToNumber msg value =
     (let n = ToNumber value
      in Returns (if n = NaN then JUndefined else JNumber n))"


section \<open>Example registries and events\<close>

text \<open>
  The inputs at which the theorems below are instantiated: a client with the prefix
  \<^verbatim>\<open>!\<close>, messages and interactions of a user who is neither the client nor an owner,
  capability tests that grant or deny everything, and commands whose handler returns.
\<close>

definition grant :: "(permissions \<Rightarrow> bool) option" where
  "grant = Some (\<lambda>required. True)"

definition deny :: "(permissions \<Rightarrow> bool) option" where
  "deny = Some (\<lambda>required. False)"

definition textMessage :: "string \<Rightarrow> Message" where
  "textMessage text =
     \<lparr>msg_id = ''576460752303423488'', author_id = ''user'', author_bot = False,
      content = text, guild_me_permissions = grant, member_permissions = grant\<rparr>"

definition param :: "type_tag \<Rightarrow> bool \<Rightarrow> bool \<Rightarrow> Argument" where
  "param t opt r = \<lparr>arg_type = t, optional = opt, rest = r\<rparr>"

definition plainCommand :: "string \<Rightarrow> string list \<Rightarrow> Argument list \<Rightarrow> Command" where
  "plainCommand n al params =
     \<lparr>name = n, aliases = al, ownerOnly = False, clientPermissions = [], checks = [],
      args = params, usesCtx = False, execute = (\<lambda>a. Completes)\<rparr>"

definition textClient :: "Command list \<Rightarrow> ArgumentConverter list \<Rightarrow> Client" where
  "textClient cmds convs =
     \<lparr>allowSelf = False, allowBots = False, prefix_opt = PrefixString ''!'',
      client_user_id = ''bot'', owners = [], commandList = cmds, argConverterList = convs,
      slashGuild = GuildString ''g'', slashCommandList = []\<rparr>"

definition slashClient :: "SlashCommand list \<Rightarrow> Client" where
  "slashClient cmds = (textClient [] []) \<lparr>slashCommandList := cmds\<rparr>"

definition slashEvent ::
  "string \<Rightarrow> (permissions \<Rightarrow> bool) option \<Rightarrow> (permissions \<Rightarrow> bool) option \<Rightarrow> Interaction" where
  "slashEvent n me mem =
     \<lparr>guildId = Some ''g'', isCommand = True, command_name = Some n,
      i_guild_me_permissions = me, i_member_permissions = mem, user_id = ''user'',
      options = ''options''\<rparr>"

text \<open>\<^verbatim>\<open>ping\<close> with the alias \<^verbatim>\<open>p\<close>; \<^verbatim>\<open>say(msg: rest)\<close>; \<^verbatim>\<open>add(a: number, b: number)\<close>;
  \<^verbatim>\<open>double(n: number)\<close>.\<close>

definition ping :: Command where
  "ping = plainCommand ''ping'' [''p''] []"

definition say :: Command where
  "say = plainCommand ''say'' [] [param TString False True]"

definition add :: Command where
  "add = plainCommand ''add'' [] [param TNumber False False, param TNumber False False]"

definition double :: Command where
  "double = plainCommand ''double'' [] [param TNumber False False]"

text \<open>A command with the given checks, and commands whose handler is an \<^verbatim>\<open>async\<close> function
  that throws: the promise it returns is rejected.\<close>

definition guarded :: "(Message \<Rightarrow> jsval outcome) list \<Rightarrow> Command" where
  "guarded cs = (plainCommand ''cmd'' [] []) \<lparr>checks := cs\<rparr>"

definition rejecting :: Command where
  "rejecting = (plainCommand ''cmd'' [] []) \<lparr>execute := (\<lambda>a. Rejects (JObject ''boom''))\<rparr>"

definition slashRejecting :: SlashCommand where
  "slashRejecting =
     \<lparr>slash_name = ''cmd'', slash_clientPermissions = [], slash_ownerOnly = False,
      slash_execute = (\<lambda>a. Rejects (JObject ''boom''))\<rparr>"

text \<open>An owner-only slash command that requires a permission.\<close>

definition restricted :: SlashCommand where
  "restricted =
     \<lparr>slash_name = ''ban'', slash_clientPermissions = [''BAN_MEMBERS''],
      slash_ownerOnly = True, slash_execute = (\<lambda>a. Completes)\<rparr>"

text \<open>
  A registry entry for \<^verbatim>\<open>Number\<close> whose function is the built-in method \<^verbatim>\<open>number\<close> itself
  (the decorator \<^verbatim>\<open>@argumentConverter\<close> that fills the registry is in \<^verbatim>\<open>../command\<close>).
\<close>

definition numberConverter :: "(jsval \<Rightarrow> jsnumber) \<Rightarrow> ArgumentConverter" where
  "numberConverter ToNumber = \<lparr>conv_type = TNumber, convert = number ToNumber\<rparr>"

text \<open>A converter to \<^verbatim>\<open>Number\<close> that takes the token first and reads \<^verbatim>\<open>0\<close> as zero.\<close>

definition zeroConverter :: ArgumentConverter where
  "zeroConverter =
     \<lparr>conv_type = TNumber,
      convert = (\<lambda>token event.
        case token of
          JString s \<Rightarrow>
            Returns (JNumber (if s = ''0'' then Num 0 else if s = ''3'' then Num 3 else NaN))
        | _ \<Rightarrow> Returns (JNumber NaN))\<rparr>"

text \<open>
  An instance of \<open>ToNumber\<close> for the examples. A string of decimal digits is read as its
  value, as ECMAScript reads it. A message is read through its \<^verbatim>\<open>valueOf\<close>, which in
  discord.js every structure inherits from \<^verbatim>\<open>Base\<close> and which returns the structure's id,
  a string of decimal digits; the id of \<open>textMessage\<close> is \<open>2 ^ 59\<close>, which a double holds
  exactly. The examples apply the instance to such strings and messages only; the other
  literal forms of ECMAScript (signs, fractions, exponents, white space) are not read.
\<close>

definition digit :: "char \<Rightarrow> int option" where
  "digit c = map_of (zip ''0123456789'' [0, 1, 2, 3, 4, 5, 6, 7, 8, 9]) c"

fun decimal :: "int \<Rightarrow> string \<Rightarrow> jsnumber" where
  "decimal n [] = Num n"
| "decimal n (c # cs) = (case digit c of None \<Rightarrow> NaN | Some d \<Rightarrow> decimal (10 * n + d) cs)"

definition valueOfNumber :: "jsval \<Rightarrow> jsnumber" where
  "valueOfNumber v =
     (case v of
        JString s \<Rightarrow> decimal 0 s
      | JMessage m \<Rightarrow> decimal 0 (msg_id m)
      | JNumber n \<Rightarrow> n
      | JBool b \<Rightarrow> Num (if b then 1 else 0)
      | JNull \<Rightarrow> Num 0
      | _ \<Rightarrow> NaN)"

section \<open>Facts about the stages\<close>

lemmas example_defs = grant_def deny_def textMessage_def param_def plainCommand_def textClient_def

lemmas before_defs = beforeArgs_def resolveCommand_def resolvePrefix_def gateMessage_def
  has_def startsWith_def shift_def matchesCommand_def toLowerCase_def lower_char_def

lemmas slash_defs = resolveInteraction_def guildFilter_def has_def startsWith_def
  slashClient_def slashEvent_def textClient_def grant_def deny_def

text \<open>A state the loop reaches has the same future as the loop started there.\<close>

lemma argLoop_loopAt:
  "loopAt converters msg commandArgs tokens parsedArgs k = Some (commandArgs', tokens', parsedArgs')
   \<Longrightarrow> argLoop converters msg commandArgs tokens parsedArgs
       = argLoop converters msg commandArgs' tokens' parsedArgs'"
proof (induction k arbitrary: commandArgs tokens parsedArgs)
  case 0
  then show ?case by simp
next
  case (Suc k)
  show ?case
  proof (cases commandArgs)
    case Nil
    with Suc.prems show ?thesis by simp
  next
    case (Cons arg later)
    with Suc.prems Suc.IH show ?thesis
      by (cases "argBody converters msg arg (fst (shift tokens)) (snd (shift tokens)) parsedArgs")
         simp_all
  qed
qed

text \<open>
  At the start of iteration \<open>k\<close> the loop has passed \<open>k\<close> parameters and shifted \<open>k\<close>
  times, and \<open>parsedArgs\<close> has grown by \<open>k\<close> entries: in the source, where it starts
  empty, \<^verbatim>\<open>parsedArgs[i] = x\<close> writes at the array's length.
\<close>

lemma argBody_Continue_length:
  "argBody converters msg arg v tokens parsedArgs = Continue p
   \<Longrightarrow> length p = Suc (length parsedArgs)"
  by (auto simp add: argBody_def split: if_splits option.splits outcome.splits)

lemma loopAt_index:
  "loopAt converters msg commandArgs tokens parsedArgs k = Some (commandArgs', tokens', parsedArgs')
   \<Longrightarrow> length parsedArgs' = length parsedArgs + k \<and> commandArgs' = drop k commandArgs
       \<and> tokens' = drop k tokens"
proof (induction k arbitrary: commandArgs tokens parsedArgs)
  case 0
  then show ?case by simp
next
  case (Suc k)
  show ?case
  proof (cases commandArgs)
    case Nil
    with Suc.prems show ?thesis by simp
  next
    case (Cons arg later)
    show ?thesis
    proof (cases "argBody converters msg arg (fst (shift tokens)) (snd (shift tokens)) parsedArgs")
      case (Continue p)
      with Suc.prems Cons
      have "loopAt converters msg later (snd (shift tokens)) p k
              = Some (commandArgs', tokens', parsedArgs')"
        by simp
      from Suc.IH [OF this] argBody_Continue_length [OF Continue] Cons show ?thesis
        by (cases tokens) (simp_all add: shift_def)
    next
      case (Break p)
      with Suc.prems Cons show ?thesis by simp
    next
      case (Return e)
      with Suc.prems Cons show ?thesis by simp
    qed
  qed
qed

text \<open>
  The dispatch that enters the loop and reaches the parameter \<open>arg\<close> is decided by the
  loop body at \<open>arg\<close>: an emission, the handler's call, or the rest of the loop.
\<close>

lemma onMessage_at:
  assumes "beforeArgs client msg = Next (cmd, tokens0, prefix)"
    and "loopAt (argConverterList client) msg (args cmd) tokens0 [] k
           = Some (arg # later, tokens, parsed)"
  shows "onMessage client msg =
     (case argBody (argConverterList client) msg arg (fst (shift tokens)) (snd (shift tokens)) parsed of
        Continue p \<Rightarrow>
          (case argLoop (argConverterList client) msg later (snd (shift tokens)) p of
             Inl e \<Rightarrow> [Emit ''commandError'' e]
           | Inr parsedArgs \<Rightarrow> executeMessage cmd msg prefix parsedArgs)
      | Break p \<Rightarrow> executeMessage cmd msg prefix p
      | Return e \<Rightarrow> [Emit ''commandError'' e])"
  using assms(1) argLoop_loopAt [OF assms(2)]
  by (simp add: onMessage_def split: step.split)

lemma join_space_shift:
  "join_space (fst (shift tokens) # map Some (snd (shift tokens))) = join_space (map Some tokens)"
  by (cases tokens) (simp_all add: shift_def)

lemma join_space_Some:
  "join_space (map Some (t # ts)) = t @ concat (map (\<lambda>s. '' '' @ s) ts)"
  by (induction ts arbitrary: t) simp_all

lemma split_on_not_Nil: "split_on sep s \<noteq> []"
  by (induction s) (auto split: list.split)

lemma split_on_append:
  "split_on sep (a @ sep # b) = split_on sep a @ split_on sep b"
proof (induction a)
  case Nil
  show ?case by simp
next
  case (Cons c a)
  then show ?case
    using split_on_not_Nil [of sep a] by (cases "split_on sep a") auto
qed

text \<open>The checks before the first one that does not return a truthy value all passed.\<close>

lemma runChecks_threw:
  "i < length cs \<Longrightarrow> \<forall>j<i. \<exists>r. (cs ! j) msg = Returns r \<and> truthy r
   \<Longrightarrow> (cs ! i) msg = Raises e \<Longrightarrow> runChecks cs msg = CheckThrew"
proof (induction cs arbitrary: i)
  case Nil
  then show ?case by simp
next
  case (Cons c cs)
  show ?case
  proof (cases i)
    case 0
    with Cons.prems show ?thesis by simp
  next
    case (Suc n)
    from Cons.prems(2) Suc obtain r where r: "c msg = Returns r" "truthy r"
      by fastforce
    have "\<forall>j<n. \<exists>r. (cs ! j) msg = Returns r \<and> truthy r"
      using Cons.prems(2) Suc by fastforce
    with Cons.IH [of n] Cons.prems(1,3) Suc have "runChecks cs msg = CheckThrew"
      by simp
    with r show ?thesis by simp
  qed
qed

lemma runChecks_refused:
  "i < length cs \<Longrightarrow> \<forall>j<i. \<exists>r. (cs ! j) msg = Returns r \<and> truthy r
   \<Longrightarrow> (cs ! i) msg = Returns r' \<Longrightarrow> \<not> truthy r' \<Longrightarrow> runChecks cs msg = CheckRefused"
proof (induction cs arbitrary: i)
  case Nil
  then show ?case by simp
next
  case (Cons c cs)
  show ?case
  proof (cases i)
    case 0
    with Cons.prems show ?thesis by simp
  next
    case (Suc n)
    from Cons.prems(2) Suc obtain r where r: "c msg = Returns r" "truthy r"
      by fastforce
    have "\<forall>j<n. \<exists>r. (cs ! j) msg = Returns r \<and> truthy r"
      using Cons.prems(2) Suc by fastforce
    with Cons.IH [of n] Cons.prems(1,3,4) Suc have "runChecks cs msg = CheckRefused"
      by simp
    with r show ?thesis by simp
  qed
qed

text \<open>
  What each path does with a handler that fails. The text path catches a synchronous
  throw; the interaction path, which awaits the call, catches a rejected promise too.
\<close>

lemma executeMessage_catches:
  "execute cmd ((if usesCtx cmd then JContext msg prefix else JMessage msg) # parsedArgs) = Throws e
   \<Longrightarrow> executeMessage cmd msg prefix parsedArgs
       = [Execute (name cmd) ((if usesCtx cmd then JContext msg prefix else JMessage msg) # parsedArgs),
          Emit ''commandError'' (Thrown e)]"
  by (simp add: executeMessage_def)

lemma executeInteraction_catches:
  "slash_execute command [JInteraction i, JObject (options i)] = Throws e
   \<or> slash_execute command [JInteraction i, JObject (options i)] = Rejects e
   \<Longrightarrow> executeInteraction command i
       = [Execute (slash_name command) [JInteraction i, JObject (options i)],
          Emit ''slashCommandError'' (Thrown e)]"
  by (auto simp add: executeInteraction_def)

section \<open>The argument pipeline\<close>

text \<open>
  C6. A text dispatch that reaches a parameter that is neither optional nor rest with no
  token left emits the error \<^verbatim>\<open>An argument is required but not provided.\<close> on
  \<^verbatim>\<open>commandError\<close> and does nothing else: the handler is not called. The hypotheses say
  that the dispatch enters the loop (the filters, the gate and the checks passed) and
  that the loop is at \<open>arg\<close> with no token left.
\<close>

theorem missing_argument:
  assumes "beforeArgs client msg = Next (cmd, tokens0, prefix)"
    and "loopAt (argConverterList client) msg (args cmd) tokens0 [] k
           = Some (arg # later, [], parsed)"
    and "\<not> optional arg" and "\<not> rest arg"
  shows "onMessage client msg
           = [Emit ''commandError'' (Error ''An argument is required but not provided.'')]"
  using onMessage_at [OF assms(1,2)] assms(3,4)
  by (simp add: argBody_def shift_def falsy_token_def)

text \<open>The command declared [P1 (required), P2 (optional)], invoked with no token after its
  name, fails this way at the first parameter.\<close>

theorem missing_argument_witness:
  "loopAt [] (textMessage ''!cmd'') [param TNumber False False, param TNumber True False] [] [] 0
     = Some ([param TNumber False False, param TNumber True False], [], [])
   \<and> onMessage
       (textClient [plainCommand ''cmd'' [] [param TNumber False False, param TNumber True False]] [])
       (textMessage ''!cmd'')
     = [Emit ''commandError'' (Error ''An argument is required but not provided.'')]"
  using missing_argument [of
      "textClient [plainCommand ''cmd'' [] [param TNumber False False, param TNumber True False]] []"
      "textMessage ''!cmd''"
      "plainCommand ''cmd'' [] [param TNumber False False, param TNumber True False]"
      "[]" "''!''" 0 "param TNumber False False" "[param TNumber True False]" "[]"]
  by (simp add: example_defs before_defs)

text \<open>
  C1. A text dispatch reaches the conversion of a parameter (the parameter is not rest
  and its token is not empty, lines 98-112), the parameter's type is not \<^verbatim>\<open>String\<close>, a
  converter is registered for the type, and the converter's awaited result is falsy:
  \<^verbatim>\<open>undefined\<close>, \<^verbatim>\<open>null\<close>, \<^verbatim>\<open>false\<close>, NaN, and the number 0 and the empty string as
  well. Then the dispatch emits the error \<^verbatim>\<open>Argument converter returned no result.\<close> on
  \<^verbatim>\<open>commandError\<close> and does nothing else: the handler is not called.
\<close>

theorem falsy_conversion_fails:
  assumes "beforeArgs client msg = Next (cmd, tokens0, prefix)"
    and "loopAt (argConverterList client) msg (args cmd) tokens0 [] k
           = Some (arg # later, token # tokens, parsed)"
    and "\<not> rest arg" and "token \<noteq> []"
    and "arg_type arg \<noteq> TString"
    and "find (\<lambda>x. conv_type x = arg_type arg) (argConverterList client) = Some converter"
    and "convert converter (JString token) (JMessage msg) = Returns r"
    and "\<not> truthy r"
  shows "onMessage client msg
           = [Emit ''commandError'' (Error ''Argument converter returned no result.'')]"
  using onMessage_at [OF assms(1,2)] assms(3-8)
  by (simp add: argBody_def shift_def falsy_token_def)

text \<open>\<^verbatim>\<open>!add 0 3\<close> with a converter that reads \<^verbatim>\<open>0\<close> as the number 0: the conversion of a
  valid zero is reported as failed, and \<^verbatim>\<open>add\<close> is not called with 0 and 3.\<close>

theorem falsy_conversion_fails_witness:
  "convert zeroConverter (JString ''0'') (JMessage (textMessage ''!add 0 3''))
     = Returns (JNumber (Num 0))
   \<and> \<not> truthy (JNumber (Num 0)) \<and> \<not> truthy (JString [])
   \<and> onMessage (textClient [add] [zeroConverter]) (textMessage ''!add 0 3'')
       = [Emit ''commandError'' (Error ''Argument converter returned no result.'')]"
  using falsy_conversion_fails [of "textClient [add] [zeroConverter]" "textMessage ''!add 0 3''"
      add "[''0'', ''3'']" "''!''" 0 "param TNumber False False" "[param TNumber False False]"
      "''0''" "[''3'']" "[]" zeroConverter "JNumber (Num 0)"]
  by (simp add: example_defs before_defs add_def zeroConverter_def)

text \<open>
  C5. A text dispatch that reaches a parameter flagged rest calls the handler with the
  values parsed so far followed by one string: the tokens not yet consumed (the one the
  iteration consumes and every one after it) joined by single spaces. Whatever
  parameters are declared after it (\<open>later\<close>) add nothing.
\<close>

theorem rest_joins_tokens:
  assumes "beforeArgs client msg = Next (cmd, tokens0, prefix)"
    and "loopAt (argConverterList client) msg (args cmd) tokens0 [] k
           = Some (arg # later, tokens, parsed)"
    and "rest arg"
  shows "onMessage client msg
           = executeMessage cmd msg prefix (parsed @ [JString (join_space (map Some tokens))])
       \<and> (\<forall>t ts. tokens = t # ts
            \<longrightarrow> join_space (map Some tokens) = t @ concat (map (\<lambda>s. '' '' @ s) ts))"
proof
  show "onMessage client msg
          = executeMessage cmd msg prefix (parsed @ [JString (join_space (map Some tokens))])"
    using onMessage_at [OF assms(1,2)] assms(3)
    by (simp add: argBody_def join_space_shift)
  show "\<forall>t ts. tokens = t # ts
          \<longrightarrow> join_space (map Some tokens) = t @ concat (map (\<lambda>s. '' '' @ s) ts)"
    using join_space_Some by blast
qed

text \<open>\<^verbatim>\<open>say(msg: rest)\<close> on the tokens \<^verbatim>\<open>hello\<close>, \<^verbatim>\<open>world\<close> is called with the one value
  \<^verbatim>\<open>hello world\<close>.\<close>

theorem rest_joins_tokens_witness:
  "onMessage (textClient [say] []) (textMessage ''!say hello world'')
     = [Execute ''say'' [JMessage (textMessage ''!say hello world''), JString ''hello world'']]"
  using rest_joins_tokens [of "textClient [say] []" "textMessage ''!say hello world''" say
      "[''hello'', ''world'']" "''!''" 0 "param TString False True" "[]" "[''hello'', ''world'']" "[]"]
  by (simp add: example_defs before_defs say_def executeMessage_def)

text \<open>
  C7, as the code has it. A text dispatch that reaches an optional parameter that is not
  flagged rest with no token left stops the loop without an error and calls the handler
  with exactly the values parsed so far: this parameter and the ones after it get no
  value. (The test of \<^verbatim>\<open>arg.rest\<close> comes first in the loop body, so a parameter that is
  both optional and rest is given the joined string, see the counterexample.)
\<close>

theorem optional_stops:
  assumes "beforeArgs client msg = Next (cmd, tokens0, prefix)"
    and "loopAt (argConverterList client) msg (args cmd) tokens0 [] k
           = Some (arg # later, [], parsed)"
    and "optional arg" and "\<not> rest arg"
  shows "onMessage client msg = executeMessage cmd msg prefix parsed"
  using onMessage_at [OF assms(1,2)] assms(3,4)
  by (simp add: argBody_def shift_def falsy_token_def)

text \<open>The command declared [P1 (optional)], invoked with no token: the handler is called
  with the message alone.\<close>

theorem optional_stops_witness:
  "onMessage (textClient [plainCommand ''cmd'' [] [param TNumber True False]] [])
       (textMessage ''!cmd'')
     = [Execute ''cmd'' [JMessage (textMessage ''!cmd'')]]"
  using optional_stops [of "textClient [plainCommand ''cmd'' [] [param TNumber True False]] []"
      "textMessage ''!cmd''" "plainCommand ''cmd'' [] [param TNumber True False]" "[]" "''!''" 0
      "param TNumber True False" "[]" "[]"]
  by (simp add: example_defs before_defs executeMessage_def)

text \<open>
  C7 as stated fails for a parameter that is optional and rest: the command declared
  [P1 (optional, rest)], invoked with no token, enters the loop with no token left for
  the optional P1, and the handler is called with the empty string for P1, not with P1
  unset.
\<close>

theorem optional_rest_counterexample:
  "optional (param TString True True)
   \<and> beforeArgs (textClient [plainCommand ''cmd'' [] [param TString True True]] [])
         (textMessage ''!cmd'')
       = Next (plainCommand ''cmd'' [] [param TString True True], [], ''!'')
   \<and> onMessage (textClient [plainCommand ''cmd'' [] [param TString True True]] [])
         (textMessage ''!cmd'')
       = [Execute ''cmd'' [JMessage (textMessage ''!cmd''), JString []]]
   \<and> onMessage (textClient [plainCommand ''cmd'' [] [param TString True True]] [])
         (textMessage ''!cmd'')
       \<noteq> executeMessage (plainCommand ''cmd'' [] [param TString True True])
           (textMessage ''!cmd'') ''!'' []"
  by (simp add: example_defs before_defs onMessage_def executeMessage_def argBody_def
      falsy_token_def)

text \<open>
  C10. Splitting on single spaces turns two consecutive spaces into an empty token. A
  dispatch whose loop consumes an empty token, whatever tokens remain after it, treats it
  as it treats no token at all: for a parameter that is not rest the loop body gives the
  same result as with no token left; a parameter that is neither optional nor rest emits
  the error \<^verbatim>\<open>An argument is required but not provided.\<close>; an optional parameter stops
  the loop with no error, the handler is called, and the remaining tokens are not
  converted for any later parameter (a parameter that is also rest takes them, joined).
\<close>

theorem empty_token_is_absent:
  assumes "beforeArgs client msg = Next (cmd, tokens0, prefix)"
    and "loopAt (argConverterList client) msg (args cmd) tokens0 [] k
           = Some (arg # later, [] # tokens, parsed)"
  shows "split_on CHR '' '' (a @ ''  '' @ b) = split_on CHR '' '' a @ [[]] @ split_on CHR '' '' b
       \<and> (\<not> rest arg \<longrightarrow>
            argBody (argConverterList client) msg arg (Some []) tokens parsed
              = argBody (argConverterList client) msg arg None [] parsed)
       \<and> (\<not> optional arg \<and> \<not> rest arg \<longrightarrow>
            onMessage client msg
              = [Emit ''commandError'' (Error ''An argument is required but not provided.'')])
       \<and> (optional arg \<longrightarrow>
            onMessage client msg
              = executeMessage cmd msg prefix
                  (if rest arg then parsed @ [JString (join_space (map Some ([] # tokens)))]
                   else parsed))"
proof -
  have "split_on CHR '' '' (a @ CHR '' '' # (CHR '' '' # b))
          = split_on CHR '' '' a @ split_on CHR '' '' (CHR '' '' # b)"
    by (rule split_on_append)
  then have split: "split_on CHR '' '' (a @ ''  '' @ b)
          = split_on CHR '' '' a @ [[]] @ split_on CHR '' '' b"
    by simp
  have same: "\<not> rest arg \<longrightarrow>
           argBody (argConverterList client) msg arg (Some []) tokens parsed
             = argBody (argConverterList client) msg arg None [] parsed"
    by (simp add: argBody_def falsy_token_def)
  have required: "\<not> optional arg \<and> \<not> rest arg \<longrightarrow>
           onMessage client msg
             = [Emit ''commandError'' (Error ''An argument is required but not provided.'')]"
    using onMessage_at [OF assms(1,2)]
    by (simp add: argBody_def shift_def falsy_token_def)
  have stops: "optional arg \<longrightarrow>
           onMessage client msg
             = executeMessage cmd msg prefix
                 (if rest arg then parsed @ [JString (join_space (map Some ([] # tokens)))]
                  else parsed)"
    using onMessage_at [OF assms(1,2)]
    by (simp add: argBody_def shift_def falsy_token_def)
  from split same required stops show ?thesis by blast
qed

text \<open>\<^verbatim>\<open>!cmd a  b\<close>, with two spaces, has the tokens \<^verbatim>\<open>a\<close>, the empty string and \<^verbatim>\<open>b\<close>. A
  required second parameter is reported as missing; an optional second parameter is left
  out of the call; in both cases \<^verbatim>\<open>b\<close> is never consumed.\<close>

theorem empty_token_is_absent_witness:
  "split_on CHR '' '' ''cmd a  b'' = [''cmd'', ''a'', [], ''b'']
   \<and> onMessage
       (textClient [plainCommand ''cmd'' [] [param TString False False, param TString False False]] [])
       (textMessage ''!cmd a  b'')
     = [Emit ''commandError'' (Error ''An argument is required but not provided.'')]
   \<and> onMessage
       (textClient [plainCommand ''cmd'' [] [param TString False False, param TString True False]] [])
       (textMessage ''!cmd a  b'')
     = [Execute ''cmd'' [JMessage (textMessage ''!cmd a  b''), JString ''a'']]"
  using empty_token_is_absent [of
      "textClient [plainCommand ''cmd'' [] [param TString False False, param TString False False]] []"
      "textMessage ''!cmd a  b''"
      "plainCommand ''cmd'' [] [param TString False False, param TString False False]"
      "[''a'', [], ''b'']" "''!''" "Suc 0" "param TString False False" "[]" "[''b'']"
      "[JString ''a'']" "''cmd a''" "''b''"]
    empty_token_is_absent [of
      "textClient [plainCommand ''cmd'' [] [param TString False False, param TString True False]] []"
      "textMessage ''!cmd a  b''"
      "plainCommand ''cmd'' [] [param TString False False, param TString True False]"
      "[''a'', [], ''b'']" "''!''" "Suc 0" "param TString True False" "[]" "[''b'']"
      "[JString ''a'']" "''cmd a''" "''b''"]
  by (simp add: example_defs before_defs argBody_def falsy_token_def executeMessage_def)

section \<open>The checks\<close>

text \<open>
  C3. A text dispatch resolves a command and passes the gate, and check number \<open>i\<close> is
  run (every check before it returned a truthy value). If that check raises an
  exception, the dispatch has no effect at all: nothing is emitted on any channel and the
  handler is not called. If it returns a falsy value instead, the dispatch emits
  \<^verbatim>\<open>CheckFailedError\<close> on \<^verbatim>\<open>commandError\<close>.
\<close>

theorem check_exception_silent:
  assumes "resolveCommand client msg = Next (cmd, tokens, prefix)"
    and "gateMessage client msg cmd = None"
    and "i < length (checks cmd)"
    and "\<forall>j<i. \<exists>r. (checks cmd ! j) msg = Returns r \<and> truthy r"
  shows "((checks cmd ! i) msg = Raises e \<longrightarrow> onMessage client msg = [])
       \<and> ((checks cmd ! i) msg = Returns r' \<and> \<not> truthy r'
            \<longrightarrow> onMessage client msg = [Emit ''commandError'' CheckFailedError])"
  using assms runChecks_threw [of i "checks cmd" msg e] runChecks_refused [of i "checks cmd" msg r']
  by (auto simp add: onMessage_def beforeArgs_def)

text \<open>A command with two checks, the first passing: when the second throws, nothing
  happens; when the second returns \<^verbatim>\<open>false\<close>, \<^verbatim>\<open>CheckFailedError\<close> is emitted.\<close>

theorem check_exception_silent_witness:
  "onMessage
       (textClient [guarded [\<lambda>m. Returns (JBool True), \<lambda>m. Raises (JObject ''boom'')]] [])
       (textMessage ''!cmd'') = []
   \<and> onMessage
       (textClient [guarded [\<lambda>m. Returns (JBool True), \<lambda>m. Returns (JBool False)]] [])
       (textMessage ''!cmd'') = [Emit ''commandError'' CheckFailedError]"
  using check_exception_silent [of
      "textClient [guarded [\<lambda>m. Returns (JBool True), \<lambda>m. Raises (JObject ''boom'')]] []"
      "textMessage ''!cmd''"
      "guarded [\<lambda>m. Returns (JBool True), \<lambda>m. Raises (JObject ''boom'')]" "[]" "''!''" 1
      "JObject ''boom''" "JBool False"]
    check_exception_silent [of
      "textClient [guarded [\<lambda>m. Returns (JBool True), \<lambda>m. Returns (JBool False)]] []"
      "textMessage ''!cmd''"
      "guarded [\<lambda>m. Returns (JBool True), \<lambda>m. Returns (JBool False)]" "[]" "''!''" 1
      "JObject ''boom''" "JBool False"]
  by (simp add: example_defs guarded_def resolveCommand_def resolvePrefix_def gateMessage_def
      has_def startsWith_def shift_def matchesCommand_def toLowerCase_def lower_char_def)

section \<open>The registry lookup\<close>

text \<open>
  C4, evaluated. With the prefix \<^verbatim>\<open>!\<close> and the command \<^verbatim>\<open>ping\<close> with the alias \<^verbatim>\<open>p\<close>,
  the messages \<^verbatim>\<open>!p\<close> and \<^verbatim>\<open>!PING\<close> call \<^verbatim>\<open>ping\<close> and \<^verbatim>\<open>!pong\<close> has no effect. The
  message \<^verbatim>\<open>!P\<close>, an upper-case spelling of the alias, has no effect either, although the
  token in lower case is among the aliases in lower case: line 43 puts the aliases in
  lower case and searches them for the token as typed.
\<close>

theorem uppercase_alias_unresolved:
  "onMessage (textClient [ping] []) (textMessage ''!p'')
     = [Execute ''ping'' [JMessage (textMessage ''!p'')]]
   \<and> onMessage (textClient [ping] []) (textMessage ''!PING'')
     = [Execute ''ping'' [JMessage (textMessage ''!PING'')]]
   \<and> onMessage (textClient [ping] []) (textMessage ''!pong'') = []
   \<and> toLowerCase ''P'' \<in> set (map toLowerCase (aliases ping))
   \<and> onMessage (textClient [ping] []) (textMessage ''!P'') = []"
  by (simp add: example_defs before_defs ping_def onMessage_def executeMessage_def)

section \<open>The handler's failures\<close>

text \<open>
  C8, evaluated. A command whose handler returns a promise that is rejected (an
  \<^verbatim>\<open>async\<close> handler that throws), invoked by a message: the handler is called, nothing
  is emitted on \<^verbatim>\<open>commandError\<close>, and the rejection is left unhandled, because line 156
  calls the handler without \<^verbatim>\<open>await\<close>. The same handler invoked by an interaction, where
  line 219 awaits the call, has its error emitted on \<^verbatim>\<open>slashCommandError\<close>.
\<close>

theorem rejected_handler_unreported:
  "onMessage (textClient [rejecting] []) (textMessage ''!cmd'')
     = [Execute ''cmd'' [JMessage (textMessage ''!cmd'')], UnhandledRejection (JObject ''boom'')]
   \<and> interaction (slashClient [slashRejecting]) (slashEvent ''cmd'' grant grant)
     = [Execute ''cmd'' [JInteraction (slashEvent ''cmd'' grant grant), JObject ''options''],
        Emit ''slashCommandError'' (Thrown (JObject ''boom''))]"
  by (simp add: example_defs before_defs rejecting_def onMessage_def executeMessage_def
      interaction_def gateInteraction_def executeInteraction_def slash_defs slashRejecting_def)

section \<open>The gate of the interaction path\<close>

text \<open>
  C2. For an interaction that resolves to a command, the gate tests the client's
  permissions, then the member's, then owner-only, and the first test that fails decides
  the one error emitted on \<^verbatim>\<open>slashCommandError\<close>. When the client's permissions are
  missing the error is \<^verbatim>\<open>MissingSlashClientPermissions\<close>, whatever the member's permissions
  and whoever the user is.
\<close>

theorem interaction_gate_order:
  assumes "resolveInteraction client i = Next command"
  shows "(\<not> has (i_guild_me_permissions i) (slash_clientPermissions command)
            \<longrightarrow> interaction client i
                  = [Emit ''slashCommandError''
                       (MissingSlashClientPermissions (slash_clientPermissions command))])
       \<and> (has (i_guild_me_permissions i) (slash_clientPermissions command)
          \<and> \<not> has (i_member_permissions i) (slash_clientPermissions command)
            \<longrightarrow> interaction client i
                  = [Emit ''slashCommandError''
                       (MissingSlashUserPermissions (slash_clientPermissions command))])
       \<and> (has (i_guild_me_permissions i) (slash_clientPermissions command)
          \<and> has (i_member_permissions i) (slash_clientPermissions command)
          \<and> slash_ownerOnly command \<and> user_id i \<notin> set (owners client)
            \<longrightarrow> interaction client i = [Emit ''slashCommandError'' OwnerOnlySlashCommand])"
  using assms by (simp add: interaction_def gateInteraction_def)

text \<open>An owner-only command that requires a permission, invoked by a user who is not an
  owner: with the permission missing for the client and the member, the error is the
  client's; with it missing for the member only, the member's; with it granted to both,
  owner-only.\<close>

theorem interaction_gate_order_witness:
  "\<not> has deny [''BAN_MEMBERS''] \<and> ''user'' \<notin> set (owners (slashClient [restricted]))
   \<and> interaction (slashClient [restricted]) (slashEvent ''ban'' deny deny)
       = [Emit ''slashCommandError'' (MissingSlashClientPermissions [''BAN_MEMBERS''])]
   \<and> interaction (slashClient [restricted]) (slashEvent ''ban'' grant deny)
       = [Emit ''slashCommandError'' (MissingSlashUserPermissions [''BAN_MEMBERS''])]
   \<and> interaction (slashClient [restricted]) (slashEvent ''ban'' grant grant)
       = [Emit ''slashCommandError'' OwnerOnlySlashCommand]"
  using interaction_gate_order [of "slashClient [restricted]" "slashEvent ''ban'' deny deny" restricted]
    interaction_gate_order [of "slashClient [restricted]" "slashEvent ''ban'' grant deny" restricted]
    interaction_gate_order [of "slashClient [restricted]" "slashEvent ''ban'' grant grant" restricted]
  by (simp add: slash_defs restricted_def)

section \<open>The built-in \<^verbatim>\<open>Number\<close> converter in the pipeline\<close>

text \<open>
  The loop body applies a converter to the token and the message, in this order. Applied
  so, \<^verbatim>\<open>message\<close> returns the token and \<^verbatim>\<open>string\<close> returns the message.
\<close>

lemma builtins_in_pipeline_order:
  "message (JString token) (JMessage msg) = Returns (JString token)
   \<and> string (JString token) (JMessage msg) = Returns (JMessage msg)"
  by (simp add: message_def string_def)

text \<open>
  C9, as the code has it. The loop body applies a converter to the token and the message
  in this order; the built-in \<^verbatim>\<open>number\<close> declares the message first and parses its second
  parameter. So for a dispatch that reaches the conversion of a parameter of type
  \<^verbatim>\<open>Number\<close> and finds a converter whose function is the built-in \<^verbatim>\<open>number\<close>, the
  converter's result is the number read from the message object (\<^verbatim>\<open>undefined\<close> when that
  is NaN) whatever the token is; the dispatch goes on with that number, or reports the
  conversion as failed when it is NaN or 0; and the result is the token's numeric value
  only when the message object reads as the same number as the token.
\<close>

theorem number_parses_message:
  assumes "beforeArgs client msg = Next (cmd, tokens0, prefix)"
    and "loopAt (argConverterList client) msg (args cmd) tokens0 [] k
           = Some (arg # later, token # tokens, parsed)"
    and "\<not> rest arg" and "token \<noteq> []"
    and "arg_type arg = TNumber"
    and "find (\<lambda>x. conv_type x = arg_type arg) (argConverterList client) = Some converter"
    and "convert converter = number ToNumber"
  shows "convert converter (JString token) (JMessage msg)
           = Returns (if ToNumber (JMessage msg) = NaN then JUndefined
                      else JNumber (ToNumber (JMessage msg)))
       \<and> onMessage client msg
           = (if truthy (JNumber (ToNumber (JMessage msg)))
              then (case argLoop (argConverterList client) msg later tokens
                           (parsed @ [JNumber (ToNumber (JMessage msg))]) of
                      Inl e \<Rightarrow> [Emit ''commandError'' e]
                    | Inr parsedArgs \<Rightarrow> executeMessage cmd msg prefix parsedArgs)
              else [Emit ''commandError'' (Error ''Argument converter returned no result.'')])
       \<and> (ToNumber (JMessage msg) \<noteq> ToNumber (JString token)
            \<longrightarrow> convert converter (JString token) (JMessage msg)
                  \<noteq> Returns (JNumber (ToNumber (JString token))))"
proof -
  have c: "convert converter (JString token) (JMessage msg)
           = Returns (if ToNumber (JMessage msg) = NaN then JUndefined
                      else JNumber (ToNumber (JMessage msg)))"
    using assms(7) by (simp add: number_def)
  have "argBody (argConverterList client) msg arg (Some token) tokens parsed
          = (if truthy (JNumber (ToNumber (JMessage msg)))
             then Continue (parsed @ [JNumber (ToNumber (JMessage msg))])
             else Return (Error ''Argument converter returned no result.''))"
    using assms(3-6) c
    by (cases "ToNumber (JMessage msg)") (simp_all add: argBody_def falsy_token_def)
  with onMessage_at [OF assms(1,2)] c show ?thesis
    by (simp add: shift_def)
qed

text \<open>\<^verbatim>\<open>!double 21\<close>: the handler is called with the number of the message's id, not 21.\<close>

theorem number_parses_message_witness:
  "valueOfNumber (JString ''21'') = Num 21
   \<and> onMessage (textClient [double] [numberConverter valueOfNumber]) (textMessage ''!double 21'')
       = [Execute ''double''
            [JMessage (textMessage ''!double 21''), JNumber (Num 576460752303423488)]]"
  using number_parses_message [of "textClient [double] [numberConverter valueOfNumber]"
      "textMessage ''!double 21''" double "[''21'']" "''!''" 0 "param TNumber False False" "[]"
      "''21''" "[]" "[]" "numberConverter valueOfNumber" valueOfNumber]
  by (simp add: example_defs before_defs double_def numberConverter_def valueOfNumber_def
      digit_def executeMessage_def)

text \<open>
  C9 as stated fails when the token spells the number the message object reads as: the
  message with the id 576460752303423488 and the text \<^verbatim>\<open>!double 576460752303423488\<close> has
  its token converted to the token's own numeric value, and the handler is called with it.
\<close>

theorem number_token_value_counterexample:
  "valueOfNumber (JString ''576460752303423488'') = Num 576460752303423488
   \<and> convert (numberConverter valueOfNumber) (JString ''576460752303423488'')
        (JMessage (textMessage ''!double 576460752303423488''))
       = Returns (JNumber (Num 576460752303423488))
   \<and> onMessage (textClient [double] [numberConverter valueOfNumber])
        (textMessage ''!double 576460752303423488'')
       = [Execute ''double'' [JMessage (textMessage ''!double 576460752303423488''),
            JNumber (Num 576460752303423488)]]"
  by (simp add: example_defs before_defs double_def numberConverter_def number_def
      valueOfNumber_def digit_def onMessage_def argBody_def falsy_token_def executeMessage_def)

end
